theory Spec2Isabelle
  imports Main
begin

section \<open>Values of the host language\<close>

text \<open>
  A thrown value is an \<open>Error\<close> object; the code only ever reads its \<open>name\<close>.
  Every \<open>await\<close> that can reject and every constructor that can throw returns
  \<open>js_error + 'a\<close>, with \<open>Inl\<close> for the thrown error.
\<close>

record js_error =
  err_name :: string
  err_message :: string

text \<open>
  \<open>deleteObject\<close> returns the value of an \<open>&&\<close> chain, which is a number, a boolean or
  \<open>undefined\<close>.
\<close>

datatype js_value = JUndefined | JNumber int | JBool bool

section \<open>Key normalisation (\<open>Bucket.normalizeDestination\<close>)\<close>

text \<open>
  A string is a list of characters. The separator \<open>/\<close> is a single character, and
  the functions below compare characters with it and with nothing else.
  \<open>String.prototype.startsWith\<close>:
\<close>

definition startsWith :: "string \<Rightarrow> string \<Rightarrow> bool" where
  "startsWith s p = (take (length p) s = p)"

text \<open>
  \<open>s.replace(/^\/+/, "")\<close>: the pattern is anchored at the start of the string and
  \<open>+\<close> is greedy, so the longest run of \<open>/\<close> at the start is replaced by the empty
  string; a string with no such run is returned as it is.
\<close>

fun replace_leading_slashes :: "string \<Rightarrow> string" where
  "replace_leading_slashes [] = []"
| "replace_leading_slashes (c # cs) =
     (if c = CHR ''/'' then replace_leading_slashes cs else c # cs)"

definition normalizeDestination :: "string \<Rightarrow> string" where
  "normalizeDestination destination =
     (if startsWith destination ''/'' then replace_leading_slashes destination
      else destination)"

section \<open>Requests, responses and the client\<close>

type_synonym metadata = "(string \<times> string) list"

type_synonym tag = "string \<times> string"

text \<open>
  The body of an upload: \<open>string | Uint8Array | Buffer | Readable | ReadStream\<close>.
  No operation of \<open>Bucket\<close> looks into it.
\<close>

datatype body = StringBody string | BytesBody "nat list" | StreamBody "nat list"

text \<open>One rule of \<open>GetBucketCorsCommandOutput.CORSRules\<close>; every field may be absent.\<close>

record CORSRule =
  AllowedHeaders :: "string list option"
  AllowedMethods :: "string list option"
  AllowedOrigins :: "string list option"
  ExposeHeaders :: "string list option"
  ID :: "string option"
  MaxAgeSeconds :: "int option"

text \<open>
  A response object. At run time it is one object whose absent properties read as
  \<open>undefined\<close>, so one record with optional fields stands for the output of every
  command; \<open>httpStatusCode\<close> is \<open>$metadata.httpStatusCode\<close>. \<open>ContentLength\<close> is the
  integer the SDK parsed from the header.
\<close>

record response =
  httpStatusCode :: "int option"
  CORSRules :: "CORSRule list option"
  ETag :: "string option"
  VersionId :: "string option"
  LastModified :: "string option"
  ContentLength :: "int option"
  AcceptRanges :: "string option"
  ContentType :: "string option"
  Metadata :: "metadata option"
  TagSet :: "tag list option"

text \<open>
  What \<open>Bucket\<close> hands to its collaborators: the commands it passes to \<open>r2.send\<close>, and
  \<open>Upload\<close>, the parameters it gives to the multipart collaborator of
  \<open>@aws-sdk/lib-storage\<close>.
\<close>

datatype request =
    HeadBucketCommand (Bucket: string)
  | GetBucketCorsCommand (Bucket: string)
  | PutObjectCommand (Bucket: string) (Key: string) (Body: body)
      (ContentType: string) (Metadata: "metadata option")
  | Upload (Bucket: string) (Key: string) (Body: body)
      (ContentType: string) (Metadata: "metadata option")
  | DeleteObjectCommand (Bucket: string) (Key: string)
  | HeadObjectCommand (Bucket: string) (Key: string)
  | CopyObjectCommand (Bucket: string) (CopySource: string) (Key: string)
  | GetBucketTaggingCommand (Bucket: string)
  | GetObjectTaggingCommand (Bucket: string) (Key: string)

record Progress =
  loaded :: "int option"
  total' :: "int option"
  part :: "int option"

text \<open>
  The client \<open>r2\<close> is shared by every bucket handle, so its state is threaded through
  the remote operations instead of being a field of the handle. The remote side is
  any function from the requests made so far and the present request to an outcome:
  a thrown error or a response. \<open>requests\<close> is the log of what was transmitted.
\<close>

record r2 =
  respond :: "request list \<Rightarrow> request \<Rightarrow> js_error + response"
  progress_events :: "request list \<Rightarrow> request \<Rightarrow> Progress list"
  requests :: "request list"

text \<open>\<open>await this.r2.send(command)\<close>.\<close>

definition send :: "request \<Rightarrow> r2 \<Rightarrow> (js_error + response) \<times> r2" where
  "send command w =
     (respond w (requests w) command, w\<lparr>requests := requests w @ [command]\<rparr>)"


section \<open>Truthiness and \<open>&&\<close>\<close>

definition js_of_number :: "int option \<Rightarrow> js_value" where
  "js_of_number n = (case n of None \<Rightarrow> JUndefined | Some i \<Rightarrow> JNumber i)"

fun js_truthy :: "js_value \<Rightarrow> bool" where
  "js_truthy JUndefined = False"
| "js_truthy (JNumber n) = (n \<noteq> 0)"
| "js_truthy (JBool b) = b"

definition js_and :: "js_value \<Rightarrow> js_value \<Rightarrow> js_value" where
  "js_and a b = (if js_truthy a then b else a)"

text \<open>\<open>n >= k\<close> and \<open>n < k\<close> for \<open>n: number | undefined\<close>: \<open>undefined\<close> compares false.\<close>

definition js_ge :: "int option \<Rightarrow> int \<Rightarrow> bool" where
  "js_ge n k = (case n of None \<Rightarrow> False | Some i \<Rightarrow> i \<ge> k)"

definition js_lt :: "int option \<Rightarrow> int \<Rightarrow> bool" where
  "js_lt n k = (case n of None \<Rightarrow> False | Some i \<Rightarrow> i < k)"


section \<open>The bucket handle\<close>

record bucket =
  name :: string
  endpoint :: string
  uri :: string
  bucketPublicUrls :: "string list"

text \<open>
  \<open>new URL(s).origin\<close> belongs to the platform: it is the parameter \<open>URL_origin\<close>,
  which throws (\<open>Inl\<close>) on a string that does not parse as a URL.
\<close>

type_synonym url_origin = "string \<Rightarrow> js_error + string"

definition new_Bucket :: "url_origin \<Rightarrow> string \<Rightarrow> string \<Rightarrow> js_error + bucket" where
  "new_Bucket URL_origin bucketName endpoint' =
     (case URL_origin endpoint' of
        Inl e \<Rightarrow> Inl e
      | Inr origin \<Rightarrow>
          Inr \<lparr>name = bucketName, endpoint = origin,
               uri = origin @ ''/'' @ bucketName, bucketPublicUrls = []\<rparr>)"

subsection \<open>Public URLs\<close>

datatype url_arg = UrlString string | UrlArray "string list"

text \<open>The \<open>typeof bucketPublicUrl === "string"\<close> branch of \<open>provideBucketPublicUrl\<close>.\<close>

definition provideBucketPublicUrl_string ::
  "url_origin \<Rightarrow> string \<Rightarrow> bucket \<Rightarrow> (js_error + unit) \<times> bucket" where
  "provideBucketPublicUrl_string URL_origin bucketPublicUrl this =
     (case URL_origin bucketPublicUrl of
        Inl e \<Rightarrow> (Inl e, this)
      | Inr origin \<Rightarrow>
          (Inr (),
           if origin \<notin> set (bucketPublicUrls this)
           then this\<lparr>bucketPublicUrls := bucketPublicUrls this @ [origin]\<rparr>
           else this))"

text \<open>
  The \<open>Array.isArray\<close> branch: the \<open>for ... of\<close> loop calls the method on each element
  in turn; an element that throws ends the loop with what was registered before it.
\<close>

fun provideBucketPublicUrl_array ::
  "url_origin \<Rightarrow> string list \<Rightarrow> bucket \<Rightarrow> (js_error + unit) \<times> bucket" where
  "provideBucketPublicUrl_array URL_origin [] this = (Inr (), this)"
| "provideBucketPublicUrl_array URL_origin (url # urls) this =
     (case provideBucketPublicUrl_string URL_origin url this of
        (Inl e, this') \<Rightarrow> (Inl e, this')
      | (Inr _, this') \<Rightarrow> provideBucketPublicUrl_array URL_origin urls this')"

text \<open>The method returns \<open>this\<close>: the second component is the handle after the call.\<close>

definition provideBucketPublicUrl ::
  "url_origin \<Rightarrow> url_arg \<Rightarrow> bucket \<Rightarrow> (js_error + unit) \<times> bucket" where
  "provideBucketPublicUrl URL_origin bucketPublicUrl this =
     (case bucketPublicUrl of
        UrlString s \<Rightarrow> provideBucketPublicUrl_string URL_origin s this
      | UrlArray urls \<Rightarrow> provideBucketPublicUrl_array URL_origin urls this)"

definition getPublicUrl :: "bucket \<Rightarrow> string option" where
  "getPublicUrl this =
     (if length (bucketPublicUrls this) \<noteq> 0
      then (case bucketPublicUrls this of [] \<Rightarrow> None | u # _ \<Rightarrow> Some u)
      else None)"

definition getPublicUrls :: "bucket \<Rightarrow> string list" where
  "getPublicUrls this = bucketPublicUrls this"



definition getObjectPublicUrls :: "bucket \<Rightarrow> string \<Rightarrow> string list" where
  "getObjectPublicUrls this objectKey =
     map (\<lambda>bucketPublicUrl. bucketPublicUrl @ ''/'' @ objectKey) (bucketPublicUrls this)"

text \<open>
  A sequence of calls by a caller who goes on after a call that threw: each call
  starts from the handle the previous one left.
\<close>

fun provide_calls :: "url_origin \<Rightarrow> url_arg list \<Rightarrow> bucket \<Rightarrow> bucket" where
  "provide_calls URL_origin [] this = this"
| "provide_calls URL_origin (a # as) this =
     provide_calls URL_origin as (snd (provideBucketPublicUrl URL_origin a this))"

subsection \<open>Existence and CORS\<close>

definition exists :: "bucket \<Rightarrow> r2 \<Rightarrow> (js_error + bool) \<times> r2" where
  "exists this w =
     (case send (HeadBucketCommand (name this)) w of
        (Inr result, w') \<Rightarrow> (Inr (httpStatusCode result = Some 200), w')
      | (Inl _, w') \<Rightarrow> (Inr False, w'))"

record CORSPolicy =
  allowedHeaders :: "string list option"
  allowedMethods :: "string list option"
  allowedOrigins :: "string list option"
  exposeHeaders :: "string list option"
  id' :: "string option"
  maxAgeSeconds :: "int option"

definition cors_policy_of_rule :: "CORSRule \<Rightarrow> CORSPolicy" where
  "cors_policy_of_rule rule =
     \<lparr>allowedHeaders = AllowedHeaders rule, allowedMethods = AllowedMethods rule,
      allowedOrigins = AllowedOrigins rule, exposeHeaders = ExposeHeaders rule,
      id' = ID rule, maxAgeSeconds = MaxAgeSeconds rule\<rparr>"

definition getCorsPolicies :: "bucket \<Rightarrow> r2 \<Rightarrow> (js_error + CORSPolicy list) \<times> r2" where
  "getCorsPolicies this w =
     (case send (GetBucketCorsCommand (name this)) w of
        (Inr result, w') \<Rightarrow>
          (Inr (case CORSRules result of
                  None \<Rightarrow> []
                | Some rules \<Rightarrow> map cors_policy_of_rule rules), w')
      | (Inl _, w') \<Rightarrow> (Inr [], w'))"

definition getCors :: "bucket \<Rightarrow> r2 \<Rightarrow> (js_error + CORSPolicy list) \<times> r2" where
  "getCors this w = getCorsPolicies this w"

subsection \<open>Uploads\<close>

record UploadFileResponse =
  objectKey :: string
  uri :: string
  publicUrl :: "string option"
  publicUrls :: "string list"
  etag :: "string option"
  versionId :: "string option"




subsection \<open>Object lifecycle\<close>

definition deleteObject :: "bucket \<Rightarrow> string \<Rightarrow> r2 \<Rightarrow> (js_error + js_value) \<times> r2" where
  "deleteObject this objectKey' w =
     (case send (DeleteObjectCommand (name this) objectKey') w of
        (Inl e, w') \<Rightarrow> (Inl e, w')
      | (Inr result, w') \<Rightarrow>
          (Inr (js_and (js_and (js_of_number (httpStatusCode result))
                          (JBool (js_ge (httpStatusCode result) 200)))
                  (JBool (js_lt (httpStatusCode result) 300))), w'))"

definition deleteFile :: "bucket \<Rightarrow> string \<Rightarrow> r2 \<Rightarrow> (js_error + js_value) \<times> r2" where
  "deleteFile this file w = deleteObject this file w"

record HeadObjectResponse =
  lastModified :: "string option"
  contentLength :: "int option"
  acceptRanges :: "string option"
  etag :: "string option"
  contentType :: "string option"
  customMetadata :: "metadata option"

definition headObject ::
  "bucket \<Rightarrow> string \<Rightarrow> r2 \<Rightarrow> (js_error + HeadObjectResponse) \<times> r2" where
  "headObject this objectKey' w =
     (case send (HeadObjectCommand (name this) objectKey') w of
        (Inl e, w') \<Rightarrow> (Inl e, w')
      | (Inr result, w') \<Rightarrow>
          (Inr \<lparr>lastModified = LastModified result,
                contentLength = ContentLength result,
                acceptRanges = AcceptRanges result,
                etag = ETag result,
                contentType = response.ContentType result,
                customMetadata = response.Metadata result\<rparr>, w'))"


definition objectExists :: "bucket \<Rightarrow> string \<Rightarrow> r2 \<Rightarrow> (js_error + bool) \<times> r2" where
  "objectExists this objectkey w =
     (case headObject this objectkey w of
        (Inr result, w') \<Rightarrow> (Inr (js_truthy (js_of_number (contentLength result))), w')
      | (Inl _, w') \<Rightarrow> (Inr False, w'))"

subsection \<open>Tags\<close>

definition getBucketTags :: "bucket \<Rightarrow> r2 \<Rightarrow> (js_error + tag list) \<times> r2" where
  "getBucketTags this w =
     (case send (GetBucketTaggingCommand (name this)) w of
        (Inr result, w') \<Rightarrow>
          (Inr (case TagSet result of None \<Rightarrow> [] | Some tags \<Rightarrow> tags), w')
      | (Inl error, w') \<Rightarrow>
          (if err_name error = ''NoSuchTagSet'' then (Inr [], w') else (Inl error, w')))"

definition getObjectTags :: "bucket \<Rightarrow> string \<Rightarrow> r2 \<Rightarrow> (js_error + tag list) \<times> r2" where
  "getObjectTags this objectKey' w =
     (case send (GetObjectTaggingCommand (name this) objectKey') w of
        (Inr result, w') \<Rightarrow>
          (Inr (case TagSet result of None \<Rightarrow> [] | Some tags \<Rightarrow> tags), w')
      | (Inl error, w') \<Rightarrow>
          (if err_name error = ''NoSuchTagSet'' then (Inr [], w') else (Inl error, w')))"

section \<open>The public-URL set as the specification words it\<close>

text \<open>
  The specification describes the public-URL set as the origins of the inputs,
  without duplicates, in the order of their first occurrences.
\<close>

fun first_occurrences :: "'a list \<Rightarrow> 'a list" where
  "first_occurrences [] = []"
| "first_occurrences (x # xs) = x # filter (\<lambda>y. y \<noteq> x) (first_occurrences xs)"

text \<open>
  The origins one call gets to register: those of its inputs up to the first one that
  does not parse.
\<close>

fun origins_until_failure :: "url_origin \<Rightarrow> string list \<Rightarrow> string list" where
  "origins_until_failure URL_origin [] = []"
| "origins_until_failure URL_origin (u # us) =
     (case URL_origin u of
        Inl _ \<Rightarrow> []
      | Inr origin \<Rightarrow> origin # origins_until_failure URL_origin us)"

definition call_origins :: "url_origin \<Rightarrow> url_arg \<Rightarrow> string list" where
  "call_origins URL_origin a =
     (case a of
        UrlString s \<Rightarrow> origins_until_failure URL_origin [s]
      | UrlArray us \<Rightarrow> origins_until_failure URL_origin us)"

section \<open>A concrete platform, remote side and handle\<close>

text \<open>
  What the platform's URL parser answers on the few strings the examples use; any
  other string is taken not to parse.
\<close>

definition invalid_url :: js_error where
  "invalid_url = \<lparr>err_name = ''TypeError'', err_message = ''Invalid URL''\<rparr>"

definition example_URL_origin :: url_origin where
  "example_URL_origin s =
     (case map_of
        [(''https://cdn.x/a'', ''https://cdn.x''),
         (''https://cdn.x/b'', ''https://cdn.x''),
         (''https://pub.y:8443/p?q=1#f'', ''https://pub.y:8443''),
         (''https://acc.r2.example.com/'', ''https://acc.r2.example.com'')] s of
        None \<Rightarrow> Inl invalid_url
      | Some origin \<Rightarrow> Inr origin)"



definition example_bucket :: bucket where
  "example_bucket =
     \<lparr>name = ''photos'', endpoint = ''https://acc.r2.example.com'',
      uri = ''https://acc.r2.example.com/photos'', bucketPublicUrls = []\<rparr>"

definition plain_response :: "int \<Rightarrow> response" where
  "plain_response status =
     \<lparr>httpStatusCode = Some status, CORSRules = None, ETag = None, VersionId = None,
      LastModified = None, ContentLength = None, AcceptRanges = None,
      ContentType = None, Metadata = None, TagSet = None\<rparr>"

definition remote_error :: "string \<Rightarrow> js_error" where
  "remote_error n = \<lparr>err_name = n, err_message = []\<rparr>"

text \<open>
  A remote side holding the five-byte object \<open>a.txt\<close>, tagged \<open>a = b\<close>, and the
  empty object \<open>empty.txt\<close>, in a bucket without tags.
\<close>

fun example_respond :: "request list \<Rightarrow> request \<Rightarrow> js_error + response" where
  "example_respond h (HeadBucketCommand b) =
     (if b = ''photos'' then Inr (plain_response 200) else Inl (remote_error ''NotFound''))"
| "example_respond h (HeadObjectCommand b k) =
     (if k = ''a.txt'' then Inr ((plain_response 200)\<lparr>ContentLength := Some 5\<rparr>)
      else if k = ''empty.txt'' then Inr ((plain_response 200)\<lparr>ContentLength := Some 0\<rparr>)
      else Inl (remote_error ''NotFound''))"
| "example_respond h (DeleteObjectCommand b k) = Inr (plain_response 204)"
| "example_respond h (GetBucketTaggingCommand b) = Inl (remote_error ''NoSuchTagSet'')"
| "example_respond h (GetObjectTaggingCommand b k) =
     (if k = ''a.txt'' then Inr ((plain_response 200)\<lparr>TagSet := Some [(''a'', ''b'')]\<rparr>)
      else Inl (remote_error ''AccessDenied''))"
| "example_respond h (GetBucketCorsCommand b) = Inl (remote_error ''NoSuchCORSConfiguration'')"
| "example_respond h (PutObjectCommand b k c t m) =
     Inr ((plain_response 200)\<lparr>ETag := Some ''e1''\<rparr>)"
| "example_respond h (Upload b k c t m) = Inr ((plain_response 200)\<lparr>ETag := Some ''e2''\<rparr>)"
| "example_respond h (CopyObjectCommand b s k) = Inr (plain_response 200)"

definition example_r2 :: r2 where
  "example_r2 =
     \<lparr>respond = example_respond, progress_events = (\<lambda>h q. []), requests = []\<rparr>"

section \<open>Properties of key normalisation\<close>

lemma replace_leading_slashes_dropWhile:
  "replace_leading_slashes s = dropWhile (\<lambda>c. c = CHR ''/'') s"
  by (induction s) simp_all

lemma normalizeDestination_dropWhile:
  "normalizeDestination k = dropWhile (\<lambda>c. c = CHR ''/'') k"
proof (cases k)
  case Nil
  then show ?thesis by (simp add: normalizeDestination_def startsWith_def)
next
  case (Cons c cs)
  then show ?thesis
    by (simp add: normalizeDestination_def startsWith_def
        replace_leading_slashes_dropWhile)
qed

lemma normalizeDestination_not_startsWith:
  "\<not> startsWith (normalizeDestination k) ''/''"
  unfolding normalizeDestination_dropWhile startsWith_def
  by (induction k) simp_all

lemma normalizeDestination_decompose:
  "replicate (length (takeWhile (\<lambda>c. c = CHR ''/'') k)) (CHR ''/'')
     @ normalizeDestination k = k"
  unfolding normalizeDestination_dropWhile
  by (induction k) simp_all

lemma normalizeDestination_fixed:
  "\<not> startsWith k ''/'' \<Longrightarrow> normalizeDestination k = k"
  by (simp add: normalizeDestination_def)

text \<open>
  Claim C5. For every key \<open>k\<close>, in particular one with one or more leading separators,
  \<open>normalizeDestination k\<close> is \<open>k\<close> with its whole leading run of \<open>/\<close> removed: \<open>k\<close> is
  some number of \<open>/\<close> followed by the result, and the result does not start with \<open>/\<close>.
  Normalising is idempotent.
\<close>

theorem normalizeDestination_strips_and_idempotent:
  "(\<exists>n. k = replicate n (CHR ''/'') @ normalizeDestination k)
   \<and> \<not> startsWith (normalizeDestination k) ''/''
   \<and> normalizeDestination (normalizeDestination k) = normalizeDestination k"
proof -
  have a: "\<exists>n. k = replicate n (CHR ''/'') @ normalizeDestination k"
    using normalizeDestination_decompose [of k, symmetric] by (rule exI)
  have b: "\<not> startsWith (normalizeDestination k) ''/''"
    by (rule normalizeDestination_not_startsWith)
  have c: "normalizeDestination (normalizeDestination k) = normalizeDestination k"
    using b by (rule normalizeDestination_fixed)
  from a b c show ?thesis by simp
qed

section \<open>What is transmitted\<close>




section \<open>Existence queries\<close>

text \<open>
  Claim C2. \<open>objectExists\<close> always returns a boolean and never throws. It returns
  \<open>true\<close> if and only if \<open>headObject\<close> succeeds and reports a content length that is
  not zero; it returns \<open>false\<close> when \<open>headObject\<close> fails, and when it reports the
  length zero.
\<close>

theorem objectExists_iff_nonzero_length:
  "(\<exists>b. fst (objectExists this k w) = Inr b)
   \<and> (fst (objectExists this k w) = Inr True \<longleftrightarrow>
        (\<exists>r n. fst (headObject this k w) = Inr r \<and> contentLength r = Some n \<and> n \<noteq> 0))
   \<and> ((\<exists>e. fst (headObject this k w) = Inl e) \<longrightarrow> fst (objectExists this k w) = Inr False)
   \<and> ((\<exists>r. fst (headObject this k w) = Inr r \<and> contentLength r = Some 0)
        \<longrightarrow> fst (objectExists this k w) = Inr False)"
  by (cases "headObject this k w"; cases "fst (headObject this k w)")
     (auto simp: objectExists_def js_of_number_def split: option.splits)

theorem objectExists_witness:
  "fst (objectExists example_bucket ''a.txt'' example_r2) = Inr True
   \<and> fst (headObject example_bucket ''gone.txt'' example_r2) = Inl (remote_error ''NotFound'')
   \<and> fst (objectExists example_bucket ''gone.txt'' example_r2) = Inr False
   \<and> contentLength (projr (fst (headObject example_bucket ''empty.txt'' example_r2))) = Some 0
   \<and> fst (objectExists example_bucket ''empty.txt'' example_r2) = Inr False"
  using objectExists_iff_nonzero_length [of example_bucket "''a.txt''" example_r2]
    objectExists_iff_nonzero_length [of example_bucket "''gone.txt''" example_r2]
    objectExists_iff_nonzero_length [of example_bucket "''empty.txt''" example_r2]
  by (simp add: headObject_def send_def example_bucket_def example_r2_def
      plain_response_def)

text \<open>
  Claim C3. \<open>exists\<close> always returns a boolean and never throws. When the head-bucket
  call fails, whatever the error, it returns \<open>false\<close>; it returns \<open>true\<close> only when
  the call succeeded with the status code 200.
\<close>

theorem exists_never_throws:
  "(\<exists>b. fst (exists this w) = Inr b)
   \<and> ((\<exists>e. respond w (requests w) (HeadBucketCommand (name this)) = Inl e)
        \<longrightarrow> fst (exists this w) = Inr False)
   \<and> (fst (exists this w) = Inr True \<longrightarrow>
        (\<exists>r. respond w (requests w) (HeadBucketCommand (name this)) = Inr r
             \<and> httpStatusCode r = Some 200))"
  by (cases "respond w (requests w) (HeadBucketCommand (name this))")
     (auto simp: exists_def send_def)

theorem exists_witness:
  "fst (exists example_bucket example_r2) = Inr True
   \<and> respond example_r2 (requests example_r2)
        (HeadBucketCommand (name (example_bucket\<lparr>name := ''nowhere''\<rparr>)))
       = Inl (remote_error ''NotFound'')
   \<and> fst (exists (example_bucket\<lparr>name := ''nowhere''\<rparr>) example_r2) = Inr False"
  using exists_never_throws [of example_bucket example_r2]
    exists_never_throws [of "example_bucket\<lparr>name := ''nowhere''\<rparr>" example_r2]
  by (simp add: exists_def send_def example_bucket_def example_r2_def plain_response_def)

section \<open>The public-URL set\<close>

lemma set_first_occurrences: "set (first_occurrences xs) = set xs"
  by (induction xs) auto

lemma distinct_first_occurrences: "distinct (first_occurrences xs)"
  by (induction xs) (simp_all add: set_first_occurrences)

lemma first_occurrences_snoc:
  "first_occurrences (xs @ [a]) =
     (if a \<in> set xs then first_occurrences xs else first_occurrences xs @ [a])"
  by (induction xs) (auto simp: set_first_occurrences)

lemma provide_string_urls:
  "bucketPublicUrls (snd (provideBucketPublicUrl_string U s b)) =
     (case U s of Inl e \<Rightarrow> bucketPublicUrls b
      | Inr origin \<Rightarrow> if origin \<in> set (bucketPublicUrls b) then bucketPublicUrls b
                      else bucketPublicUrls b @ [origin])"
  by (simp add: provideBucketPublicUrl_string_def split: sum.splits)

lemma provide_array_urls:
  "bucketPublicUrls b = first_occurrences pre \<Longrightarrow>
   bucketPublicUrls (snd (provideBucketPublicUrl_array U us b)) =
     first_occurrences (pre @ origins_until_failure U us)"
proof (induction us arbitrary: b pre)
  case Nil
  then show ?case by simp
next
  case (Cons u us)
  show ?case
  proof (cases "U u")
    case (Inl e)
    then show ?thesis using Cons.prems
      by (simp add: provideBucketPublicUrl_string_def)
  next
    case (Inr origin)
    obtain b' where b': "provideBucketPublicUrl_string U u b = (Inr (), b')"
      using Inr by (simp add: provideBucketPublicUrl_string_def)
    have "bucketPublicUrls b' = first_occurrences (pre @ [origin])"
      using provide_string_urls [of U u b] b' Inr Cons.prems
      by (simp add: first_occurrences_snoc set_first_occurrences)
    then have "bucketPublicUrls (snd (provideBucketPublicUrl_array U us b')) =
      first_occurrences ((pre @ [origin]) @ origins_until_failure U us)"
      by (rule Cons.IH)
    then show ?thesis using b' Inr by simp
  qed
qed

lemma provide_urls:
  "bucketPublicUrls b = first_occurrences pre \<Longrightarrow>
   bucketPublicUrls (snd (provideBucketPublicUrl U a b)) =
     first_occurrences (pre @ call_origins U a)"
proof (cases a)
  case (UrlString s)
  have "provideBucketPublicUrl_array U [s] b = provideBucketPublicUrl_string U s b"
    by (simp add: provideBucketPublicUrl_string_def split: sum.splits)
  moreover assume "bucketPublicUrls b = first_occurrences pre"
  ultimately show ?thesis using UrlString provide_array_urls [of b pre U "[s]"]
    by (simp add: provideBucketPublicUrl_def call_origins_def)
next
  case (UrlArray us)
  assume "bucketPublicUrls b = first_occurrences pre"
  then show ?thesis using UrlArray provide_array_urls [of b pre U us]
    by (simp add: provideBucketPublicUrl_def call_origins_def)
qed

lemma provide_calls_urls:
  "bucketPublicUrls b = first_occurrences pre \<Longrightarrow>
   bucketPublicUrls (provide_calls U calls b) =
     first_occurrences (pre @ concat (map (call_origins U) calls))"
proof (induction calls arbitrary: b pre)
  case Nil
  then show ?case by simp
next
  case (Cons a calls)
  have "bucketPublicUrls (snd (provideBucketPublicUrl U a b)) =
     first_occurrences (pre @ call_origins U a)"
    using Cons.prems by (rule provide_urls)
  then have "bucketPublicUrls (provide_calls U calls (snd (provideBucketPublicUrl U a b))) =
     first_occurrences ((pre @ call_origins U a) @ concat (map (call_origins U) calls))"
    by (rule Cons.IH)
  then show ?case by simp
qed

lemma new_Bucket_urls: "new_Bucket U n e = Inr b \<Longrightarrow> bucketPublicUrls b = []"
  by (auto simp: new_Bucket_def split: sum.splits)

text \<open>
  Claim C4. On a freshly constructed handle, after any sequence of calls to
  \<open>provideBucketPublicUrl\<close>, each with a string or a list of strings, \<open>getPublicUrls\<close>
  has no duplicates: it is the list of the origins of the inputs the calls got to
  register, each origin once, in the order of their first occurrences.
\<close>

theorem public_urls_distinct_first_occurrences:
  assumes "new_Bucket URL_origin bucketName endpoint' = Inr this"
  shows "distinct (getPublicUrls (provide_calls URL_origin calls this))
       \<and> getPublicUrls (provide_calls URL_origin calls this) =
           first_occurrences (concat (map (call_origins URL_origin) calls))"
proof -
  have "bucketPublicUrls this = first_occurrences []"
    using assms by (simp add: new_Bucket_urls)
  then have "bucketPublicUrls (provide_calls URL_origin calls this) =
     first_occurrences ([] @ concat (map (call_origins URL_origin) calls))"
    by (rule provide_calls_urls)
  then show ?thesis
    by (simp add: getPublicUrls_def distinct_first_occurrences)
qed

theorem public_urls_witness:
  "new_Bucket example_URL_origin ''photos'' ''https://acc.r2.example.com/'' = Inr example_bucket
   \<and> distinct (getPublicUrls (provide_calls example_URL_origin
        [UrlString ''https://cdn.x/a'',
         UrlArray [''https://cdn.x/b'', ''https://pub.y:8443/p?q=1#f'', ''no url'', ''https://cdn.x/a''],
         UrlString ''https://cdn.x/b''] example_bucket))
   \<and> getPublicUrls (provide_calls example_URL_origin
        [UrlString ''https://cdn.x/a'',
         UrlArray [''https://cdn.x/b'', ''https://pub.y:8443/p?q=1#f'', ''no url'', ''https://cdn.x/a''],
         UrlString ''https://cdn.x/b''] example_bucket)
       = [''https://cdn.x'', ''https://pub.y:8443'']"
proof -
  have h: "new_Bucket example_URL_origin ''photos'' ''https://acc.r2.example.com/''
             = Inr example_bucket"
    by (simp add: new_Bucket_def example_URL_origin_def example_bucket_def)
  have e: "first_occurrences (concat (map (call_origins example_URL_origin)
        [UrlString ''https://cdn.x/a'',
         UrlArray [''https://cdn.x/b'', ''https://pub.y:8443/p?q=1#f'', ''no url'', ''https://cdn.x/a''],
         UrlString ''https://cdn.x/b'']))
       = [''https://cdn.x'', ''https://pub.y:8443'']"
    by (simp add: call_origins_def example_URL_origin_def)
  show ?thesis
    using h e public_urls_distinct_first_occurrences [OF h,
      of "[UrlString ''https://cdn.x/a'',
         UrlArray [''https://cdn.x/b'', ''https://pub.y:8443/p?q=1#f'', ''no url'', ''https://cdn.x/a''],
         UrlString ''https://cdn.x/b'']"]
    by simp
qed

text \<open>
  Claim C10. In its single-string form, \<open>provideBucketPublicUrl\<close> on a string that
  does not parse as a URL throws the parser's error and leaves the handle, and so the
  public-URL set, as it was.
\<close>

theorem provideBucketPublicUrl_unparseable:
  "URL_origin s = Inl e \<Longrightarrow>
   provideBucketPublicUrl URL_origin (UrlString s) this = (Inl e, this)"
  by (simp add: provideBucketPublicUrl_def provideBucketPublicUrl_string_def)

theorem provideBucketPublicUrl_unparseable_witness:
  "example_URL_origin ''no url'' = Inl invalid_url
   \<and> provideBucketPublicUrl example_URL_origin (UrlString ''no url'')
        (example_bucket\<lparr>bucketPublicUrls := [''https://cdn.x'']\<rparr>)
       = (Inl invalid_url, example_bucket\<lparr>bucketPublicUrls := [''https://cdn.x'']\<rparr>)"
proof -
  have h: "example_URL_origin ''no url'' = Inl invalid_url"
    by (simp add: example_URL_origin_def)
  show ?thesis
    using h provideBucketPublicUrl_unparseable
      [of example_URL_origin "''no url''" invalid_url
          "example_bucket\<lparr>bucketPublicUrls := [''https://cdn.x'']\<rparr>"]
    by simp
qed

text \<open>
  Claim C6. \<open>getObjectPublicUrls k\<close> is empty when no base URL is registered;
  in every case it has one entry per registered base URL, in registration order, and
  the entry for a base URL is that URL, then \<open>/\<close>, then \<open>k\<close> as given.
\<close>

theorem getObjectPublicUrls_entries:
  "(getPublicUrls this = [] \<longrightarrow> getObjectPublicUrls this k = [])
   \<and> length (getObjectPublicUrls this k) = length (getPublicUrls this)
   \<and> (\<forall>i < length (getPublicUrls this).
         getObjectPublicUrls this k ! i = getPublicUrls this ! i @ ''/'' @ k)"
  by (simp add: getObjectPublicUrls_def getPublicUrls_def)

theorem getObjectPublicUrls_witness:
  "getPublicUrls example_bucket = []
   \<and> getObjectPublicUrls example_bucket ''/a.txt'' = []
   \<and> (1::nat) < length (getPublicUrls
         (example_bucket\<lparr>bucketPublicUrls := [''https://cdn.x'', ''https://pub.y:8443'']\<rparr>))
   \<and> getObjectPublicUrls
         (example_bucket\<lparr>bucketPublicUrls := [''https://cdn.x'', ''https://pub.y:8443'']\<rparr>)
         ''/a.txt'' ! 1 = ''https://pub.y:8443//a.txt''"
  using getObjectPublicUrls_entries [of example_bucket "''/a.txt''"]
    getObjectPublicUrls_entries
      [of "example_bucket\<lparr>bucketPublicUrls := [''https://cdn.x'', ''https://pub.y:8443'']\<rparr>"
          "''/a.txt''"]
  by (simp add: getPublicUrls_def example_bucket_def)

section \<open>Deleting, tags and the deprecated aliases\<close>

text \<open>
  Claim C7. When the transport answers the delete request with a response,
  \<open>deleteObject\<close> returns \<open>true\<close> if and only if the response has a status code
  \<open>c\<close> with \<open>200 \<le> c < 300\<close>.
\<close>

theorem deleteObject_true_iff_2xx:
  "respond w (requests w) (DeleteObjectCommand (name this) k) = Inr r \<Longrightarrow>
   (fst (deleteObject this k w) = Inr (JBool True))
     = (\<exists>c. httpStatusCode r = Some c \<and> 200 \<le> c \<and> c < 300)"
  by (auto simp: deleteObject_def send_def js_and_def js_of_number_def js_ge_def js_lt_def
      split: option.splits)

theorem deleteObject_witness:
  "respond example_r2 (requests example_r2) (DeleteObjectCommand (name example_bucket) ''a.txt'')
     = Inr (plain_response 204)
   \<and> fst (deleteObject example_bucket ''a.txt'' example_r2) = Inr (JBool True)"
proof -
  have h: "respond example_r2 (requests example_r2)
             (DeleteObjectCommand (name example_bucket) ''a.txt'') = Inr (plain_response 204)"
    by (simp add: example_r2_def)
  show ?thesis
    using h deleteObject_true_iff_2xx [OF h] by (simp add: plain_response_def)
qed

text \<open>
  Claim C8. \<open>getBucketTags\<close> and \<open>getObjectTags\<close> return the tag set of a successful
  response (the empty list when the response carries none). When the request fails
  they return the empty list if the error is named \<open>NoSuchTagSet\<close>, and throw the
  same error otherwise.
\<close>

theorem get_tags_outcomes:
  "(\<forall>r. respond w (requests w) (GetBucketTaggingCommand (name this)) = Inr r \<longrightarrow>
        fst (getBucketTags this w) = Inr (case TagSet r of None \<Rightarrow> [] | Some tags \<Rightarrow> tags))
   \<and> (\<forall>e. respond w (requests w) (GetBucketTaggingCommand (name this)) = Inl e \<longrightarrow>
        fst (getBucketTags this w) = (if err_name e = ''NoSuchTagSet'' then Inr [] else Inl e))
   \<and> (\<forall>r. respond w (requests w) (GetObjectTaggingCommand (name this) k) = Inr r \<longrightarrow>
        fst (getObjectTags this k w) = Inr (case TagSet r of None \<Rightarrow> [] | Some tags \<Rightarrow> tags))
   \<and> (\<forall>e. respond w (requests w) (GetObjectTaggingCommand (name this) k) = Inl e \<longrightarrow>
        fst (getObjectTags this k w) = (if err_name e = ''NoSuchTagSet'' then Inr [] else Inl e))"
  by (simp add: getBucketTags_def getObjectTags_def send_def)

theorem get_tags_witness:
  "respond example_r2 (requests example_r2) (GetBucketTaggingCommand (name example_bucket))
     = Inl (remote_error ''NoSuchTagSet'')
   \<and> fst (getBucketTags example_bucket example_r2) = Inr []
   \<and> respond example_r2 (requests example_r2)
        (GetObjectTaggingCommand (name example_bucket) ''a.txt'')
     = Inr ((plain_response 200)\<lparr>TagSet := Some [(''a'', ''b'')]\<rparr>)
   \<and> fst (getObjectTags example_bucket ''a.txt'' example_r2) = Inr [(''a'', ''b'')]
   \<and> respond example_r2 (requests example_r2)
        (GetObjectTaggingCommand (name example_bucket) ''b.txt'')
     = Inl (remote_error ''AccessDenied'')
   \<and> fst (getObjectTags example_bucket ''b.txt'' example_r2)
     = Inl (remote_error ''AccessDenied'')"
  using get_tags_outcomes [of example_r2 example_bucket "''a.txt''"]
    get_tags_outcomes [of example_r2 example_bucket "''b.txt''"]
  by (simp add: example_r2_def remote_error_def)

text \<open>
  Claim C9. The deprecated aliases do what their replacements do, on every input and
  every state of the client: \<open>getCors\<close> is \<open>getCorsPolicies\<close>, \<open>deleteFile\<close> is
  \<open>deleteObject\<close>, and \<open>getPublicUrl\<close> is the first element of \<open>getPublicUrls\<close>, or
  \<open>undefined\<close> when there is none.
\<close>

theorem deprecated_aliases:
  "getCors this w = getCorsPolicies this w
   \<and> deleteFile this k w = deleteObject this k w
   \<and> getPublicUrl this = (case getPublicUrls this of [] \<Rightarrow> None | u # _ \<Rightarrow> Some u)"
  by (simp add: getCors_def deleteFile_def getPublicUrl_def getPublicUrls_def
      split: list.splits)

end
